theory Spec2Isabelle
  imports Complex_Main
begin

section \<open>The front end: values received from the server\<close>

text \<open>
  The repository's sources are two versions of the page component: the chat page
  (the \<^verbatim>\<open>Home\<close> component that keeps a \<^verbatim>\<open>chatHistory\<close>) and the single-form page
  \<^verbatim>\<open>app/src/app/page.tsx\<close>. Both post to \<^verbatim>\<open>/natural_backtest\<close> and render the reply.

  \<^verbatim>\<open>DataType.conversation\<close> is declared \<^verbatim>\<open>any\<close>, so it is a JSON value; the other fields
  have the types \<^verbatim>\<open>DataType\<close> declares. An optional field that is absent is \<open>None\<close>
  (JavaScript's \<^verbatim>\<open>undefined\<close>). Numbers are reals.
\<close>

datatype jsval =
    JNull
  | JBool bool
  | JNum real
  | JStr string
  | JArr "jsval list"
  | JObj "(string \<times> jsval) list"

text \<open>JavaScript's truthiness, as the conditions of \<^verbatim>\<open>handleSubmit\<close> read it.\<close>

fun truthy :: "jsval \<Rightarrow> bool" where
  "truthy JNull = False"
| "truthy (JBool b) = b"
| "truthy (JNum x) = (x \<noteq> 0)"
| "truthy (JStr s) = (s \<noteq> [])"
| "truthy (JArr _) = True"
| "truthy (JObj _) = True"

definition truthy_any :: "jsval option \<Rightarrow> bool" where
  "truthy_any v = (case v of None \<Rightarrow> False | Some x \<Rightarrow> truthy x)"

definition truthy_bool :: "bool option \<Rightarrow> bool" where
  "truthy_bool v = (case v of None \<Rightarrow> False | Some b \<Rightarrow> b)"

definition truthy_str :: "string option \<Rightarrow> bool" where
  "truthy_str v = (case v of None \<Rightarrow> False | Some s \<Rightarrow> s \<noteq> [])"

text \<open>What a template literal \<^verbatim>\<open>${x}\<close> prints for an optional string.\<close>

definition template_str :: "string option \<Rightarrow> string" where
  "template_str v = (case v of None \<Rightarrow> ''undefined'' | Some s \<Rightarrow> s)"

text \<open>
  \<^verbatim>\<open>String.prototype.trim\<close> on the white space among the characters below 256 (tab,
  line feed, vertical tab, form feed, carriage return, space, no-break space);
  \<^verbatim>\<open>handleSubmit\<close> only asks whether the trimmed input is empty.
\<close>

definition js_space :: "char \<Rightarrow> bool" where
  "js_space c =
     (c \<in> set [CHR 0x09, CHR 0x0A, CHR 0x0B, CHR 0x0C, CHR 0x0D, CHR 0x20, CHR 0xA0])"

definition trim :: "string \<Rightarrow> string" where
  "trim s = rev (dropWhile js_space (rev (dropWhile js_space s)))"

record ChartDataObj =
  dates :: "string list option"
  equity :: "real list option"
  drawdown :: "real list option"
  indicators :: "(string \<times> real list) list option"
  signals :: "(string \<times> real list) list option"

record Metrics =
  start_value :: "real option"
  end_value :: "real option"
  total_return :: "real option"
  CAGR :: "real option"
  max_drawdown :: "real option"
  sharpe_ratio :: "real option"
  sortino_ratio :: "real option"
  total_trades :: "real option"
  win_rate :: "real option"
  avg_winning_trade :: "real option"
  avg_losing_trade :: "real option"
  profit_factor :: "real option"
  years :: "real option"

record DataType =
  chart_data :: "ChartDataObj option"
  metrics :: "Metrics option"
  conversation :: "jsval option"
  needs_clarification :: "bool option"
  message :: "string option"
  error :: "string option"

section \<open>The chat page: state and \<^verbatim>\<open>handleSubmit\<close>\<close>

datatype role = User | Assistant

text \<open>
  A \<^verbatim>\<open>ChatMessage\<close> is a history entry (role and content, what the request carries)
  with a time stamp. The content of a clarification message is \<^verbatim>\<open>json.message\<close>, which
  may be absent, so the content is optional. The clock (\<^verbatim>\<open>new Date()\<close>) is an argument.
\<close>

record HistoryEntry =
  role :: role
  content :: "string option"

record ChatMessage = HistoryEntry +
  timestamp :: nat

record Request =
  input :: string
  conversation_history :: "HistoryEntry list option"

record Home =
  data :: "DataType option"
  loading :: bool
  processingBacktest :: bool
  nlInput :: string
  chatHistory :: "ChatMessage list"

definition initial :: "nat \<Rightarrow> Home" where
  "initial now =
     \<lparr>data = None, loading = False, processingBacktest = False, nlInput = [],
      chatHistory =
        [\<lparr>role = Assistant,
          content = Some ''Hi! I'll help you create and backtest a trading strategy. What would you like to backtest?'',
          timestamp = now\<rparr>]\<rparr>"

definition handleInputChange :: "Home \<Rightarrow> string \<Rightarrow> Home" where
  "handleInputChange s v = s\<lparr>nlInput := v\<rparr>"

text \<open>The result of \<^verbatim>\<open>await fetch(...)\<close> and \<^verbatim>\<open>await res.json()\<close>: a parsed body, or an
  exception that the \<^verbatim>\<open>catch\<close> block handles.\<close>

datatype fetch_outcome = Failed | Replied DataType

text \<open>
  \<^verbatim>\<open>handleSubmit\<close> up to the \<^verbatim>\<open>fetch\<close>: nothing happens on a blank input; otherwise the
  user's message is appended, \<^verbatim>\<open>loading\<close> is set, the input is cleared, and the request
  carries the input and the \<^verbatim>\<open>chatHistory\<close> of the render that created the handler, each
  message reduced to its role and content.
\<close>

definition handleSubmit_send :: "Home \<Rightarrow> nat \<Rightarrow> (Home \<times> Request) option" where
  "handleSubmit_send s now =
     (if trim (nlInput s) = [] then None
      else Some
        (s\<lparr>chatHistory := chatHistory s @
              [\<lparr>role = User, content = Some (nlInput s), timestamp = now\<rparr>],
           loading := True,
           nlInput := []\<rparr>,
         \<lparr>input = nlInput s,
          conversation_history =
            Some (map (\<lambda>msg. \<lparr>role = role msg, content = content msg\<rparr>) (chatHistory s))\<rparr>))"

text \<open>
  \<^verbatim>\<open>handleSubmit\<close> from the reply on. The second component is the argument of the
  \<^verbatim>\<open>setTimeout\<close> callback that the success branch schedules.
\<close>

definition handleSubmit_receive :: "Home \<Rightarrow> fetch_outcome \<Rightarrow> nat \<Rightarrow> Home \<times> DataType option" where
  "handleSubmit_receive s out now =
     (case out of
        Replied json \<Rightarrow>
          if truthy_any (conversation json) \<and> truthy_bool (needs_clarification json) then
            (s\<lparr>chatHistory := chatHistory s @
                  [\<lparr>role = Assistant, content = message json, timestamp = now\<rparr>],
               data := None,
               loading := False\<rparr>, None)
          else if truthy_str (error json) then
            (s\<lparr>chatHistory := chatHistory s @
                  [\<lparr>role = Assistant,
                    content = Some (''I encountered an issue: '' @ template_str (error json)),
                    timestamp = now\<rparr>],
               loading := False\<rparr>, None)
          else
            (s\<lparr>chatHistory := chatHistory s @
                  [\<lparr>role = Assistant,
                    content = Some ''Great! I've run your backtest. Here are the results:'',
                    timestamp = now\<rparr>],
               processingBacktest := True,
               loading := False\<rparr>, Some json)
      | Failed \<Rightarrow>
          (s\<lparr>chatHistory := chatHistory s @
                [\<lparr>role = Assistant,
                  content = Some ''Sorry, I encountered a connection error. Please try again.'',
                  timestamp = now\<rparr>],
             loading := False\<rparr>, None))"

text \<open>The \<^verbatim>\<open>setTimeout\<close> callback of the success branch.\<close>

definition timeout_fires :: "Home \<Rightarrow> DataType \<Rightarrow> Home" where
  "timeout_fires s json = s\<lparr>data := Some json, processingBacktest := False\<rparr>"

text \<open>The results block is rendered under \<^verbatim>\<open>!loading && !processingBacktest && data\<close>.\<close>

definition results_shown :: "Home \<Rightarrow> bool" where
  "results_shown s = (\<not> loading s \<and> \<not> processingBacktest s \<and> data s \<noteq> None)"

subsection \<open>A conversation on the chat page\<close>

text \<open>
  One turn of the user: the text typed into the input, the clock at the submission, what
  the \<^verbatim>\<open>fetch\<close> gave, and the clock at the reply. The input and the button are disabled
  while \<^verbatim>\<open>loading\<close>, so a turn ends before the next one starts.
\<close>

record Turn =
  typed :: string
  sent_at :: nat
  outcome :: fetch_outcome
  replied_at :: nat

fun session_requests :: "Home \<Rightarrow> Turn list \<Rightarrow> Request list" where
  "session_requests s [] = []"
| "session_requests s (t # ts) =
     (case handleSubmit_send (handleInputChange s (typed t)) (sent_at t) of
        None \<Rightarrow> session_requests (handleInputChange s (typed t)) ts
      | Some (s1, req) \<Rightarrow>
          (case handleSubmit_receive s1 (outcome t) (replied_at t) of
             (s2, None) \<Rightarrow> req # session_requests s2 ts
           | (s2, Some json) \<Rightarrow> req # session_requests (timeout_fires s2 json) ts))"

text \<open>
  The requests a client sends when every request carries the full history: the history
  so far, then the user's turn and the assistant's turn are added to it. The assistant's
  turn is what the chat shows for the reply.
\<close>

definition assistant_turn :: "fetch_outcome \<Rightarrow> string option" where
  "assistant_turn out =
     (case out of
        Failed \<Rightarrow> Some ''Sorry, I encountered a connection error. Please try again.''
      | Replied json \<Rightarrow>
          if truthy_any (conversation json) \<and> truthy_bool (needs_clarification json)
          then message json
          else if truthy_str (error json)
          then Some (''I encountered an issue: '' @ template_str (error json))
          else Some ''Great! I've run your backtest. Here are the results:'')"

fun full_history_requests :: "HistoryEntry list \<Rightarrow> Turn list \<Rightarrow> Request list" where
  "full_history_requests h [] = []"
| "full_history_requests h (t # ts) =
     (if trim (typed t) = [] then full_history_requests h ts
      else \<lparr>input = typed t, conversation_history = Some h\<rparr> #
           full_history_requests
             (h @ [\<lparr>role = User, content = Some (typed t)\<rparr>,
                   \<lparr>role = Assistant, content = assistant_turn (outcome t)\<rparr>]) ts)"

section \<open>The single-form page (\<^verbatim>\<open>app/src/app/page.tsx\<close>)\<close>

text \<open>
  This page keeps \<^verbatim>\<open>data\<close>, \<^verbatim>\<open>loading\<close> and \<^verbatim>\<open>nlInput\<close> only. Its \<^verbatim>\<open>handleSubmit\<close> sets
  \<^verbatim>\<open>loading\<close>, clears \<^verbatim>\<open>data\<close>, posts \<^verbatim>\<open>{ input: nlInput }\<close>, stores the parsed reply
  in \<^verbatim>\<open>data\<close> (an exception is only logged) and resets \<^verbatim>\<open>loading\<close>. The body has no
  \<^verbatim>\<open>conversation_history\<close> field.
\<close>

record FormPage =
  form_data :: "DataType option"
  form_loading :: bool
  form_nlInput :: string

definition form_handleInputChange :: "FormPage \<Rightarrow> string \<Rightarrow> FormPage" where
  "form_handleInputChange s v = s\<lparr>form_nlInput := v\<rparr>"

definition form_handleSubmit :: "FormPage \<Rightarrow> fetch_outcome \<Rightarrow> FormPage \<times> Request" where
  "form_handleSubmit s out =
     (s\<lparr>form_loading := False,
        form_data := (case out of Replied json \<Rightarrow> Some json | Failed \<Rightarrow> None)\<rparr>,
      \<lparr>input = form_nlInput s, conversation_history = None\<rparr>)"

fun form_requests :: "FormPage \<Rightarrow> Turn list \<Rightarrow> Request list" where
  "form_requests s [] = []"
| "form_requests s (t # ts) =
     (case form_handleSubmit (form_handleInputChange s (typed t)) (outcome t) of
        (s', req) \<Rightarrow> req # form_requests s' ts)"

section \<open>Charts\<close>




definition chartData :: "DataType option \<Rightarrow> ChartDataObj" where
  "chartData d =
     (case d of
        None \<Rightarrow> \<lparr>dates = None, equity = None, drawdown = None, indicators = None, signals = None\<rparr>
      | Some json \<Rightarrow>
          (case chart_data json of
             None \<Rightarrow> \<lparr>dates = None, equity = None, drawdown = None, indicators = None, signals = None\<rparr>
           | Some c \<Rightarrow> c))"






section \<open>Formatting a metric\<close>

text \<open>
  \<^verbatim>\<open>Number.prototype.toFixed(2)\<close> and \<^verbatim>\<open>Number.prototype.toString()\<close> are the language's
  own; they are the first two arguments. \<^verbatim>\<open>formatValue\<close> is the chat page's,
  \<^verbatim>\<open>form_formatValue\<close> the form page's, which names the case \<^verbatim>\<open>'number'\<close> before
  \<^verbatim>\<open>default\<close>.
\<close>

definition formatValue ::
  "(real \<Rightarrow> string) \<Rightarrow> (real \<Rightarrow> string) \<Rightarrow> real option \<Rightarrow> string \<Rightarrow> string" where
  "formatValue toFixed2 toString v format =
     (case v of
        None \<Rightarrow> ''0.00''
      | Some x \<Rightarrow>
          if format = ''currency'' then ''$'' @ toFixed2 x
          else if format = ''percent'' then toFixed2 x @ ''%''
          else if format = ''integer'' then toString x
          else toFixed2 x)"

definition form_formatValue ::
  "(real \<Rightarrow> string) \<Rightarrow> (real \<Rightarrow> string) \<Rightarrow> real option \<Rightarrow> string \<Rightarrow> string" where
  "form_formatValue toFixed2 toString v format =
     (case v of
        None \<Rightarrow> ''0.00''
      | Some x \<Rightarrow>
          if format = ''currency'' then ''$'' @ toFixed2 x
          else if format = ''percent'' then toFixed2 x @ ''%''
          else if format = ''integer'' then toString x
          else if format = ''number'' then toFixed2 x
          else toFixed2 x)"

section \<open>The back end, from the specification\<close>

text \<open>
  The numeric pipeline (\<^verbatim>\<open>backend/backtest_loop.py\<close> and the modules around it) is not
  among the sources; the front end above is its caller. The definitions of this section
  follow the specification's sections 3 and 4.5 to 4.8, over the reals.
\<close>

subsection \<open>SignalEngine\<close>

text \<open>
  Modelled from the spec: the SignalEngine's \<^verbatim>\<open>cross_above\<close> and \<^verbatim>\<open>cross_below\<close>, which
  are not among the sources. An operand is a series of values, \<open>None\<close> where the value
  is undefined (warm-up); an undefined operand makes the condition false, and so does the
  first bar, which has no predecessor.
\<close>

type_synonym series = "real option list"

definition value_at :: "series \<Rightarrow> nat \<Rightarrow> real option" where
  "value_at A i = (if i < length A then A ! i else None)"

definition cross_above_at :: "series \<Rightarrow> series \<Rightarrow> nat \<Rightarrow> bool" where
  "cross_above_at A B i =
     (case i of
        0 \<Rightarrow> False
      | Suc j \<Rightarrow>
          (case (value_at A j, value_at B j, value_at A i, value_at B i) of
             (Some a0, Some b0, Some a1, Some b1) \<Rightarrow> a0 \<le> b0 \<and> a1 > b1
           | _ \<Rightarrow> False))"

definition cross_below_at :: "series \<Rightarrow> series \<Rightarrow> nat \<Rightarrow> bool" where
  "cross_below_at A B i =
     (case i of
        0 \<Rightarrow> False
      | Suc j \<Rightarrow>
          (case (value_at A j, value_at B j, value_at A i, value_at B i) of
             (Some a0, Some b0, Some a1, Some b1) \<Rightarrow> a0 \<ge> b0 \<and> a1 < b1
           | _ \<Rightarrow> False))"

definition cross_above :: "series \<Rightarrow> series \<Rightarrow> bool list" where
  "cross_above A B = map (cross_above_at A B) [0..<length A]"

definition cross_below :: "series \<Rightarrow> series \<Rightarrow> bool list" where
  "cross_below A B = map (cross_below_at A B) [0..<length A]"

subsection \<open>BacktestSimulator\<close>

text \<open>
  Modelled from the spec: the BacktestSimulator of section 4.7, which is not among the
  sources. One bar makes at most one transition: Flat to Long on an entry signal, Long to
  Flat on an exit signal (an open position with both signals closes). Opening converts
  all cash to shares at the bar's close, reduced by the fee rate; closing converts the
  shares back, reduced by the fee rate, and appends a trade record. The specification
  names a trade's realized return without a formula; here it is the cash received over
  the cash committed, minus one.
\<close>

datatype position = Flat | Long

record Bar =
  date :: nat
  open_price :: real
  high :: real
  low :: real
  close :: real
  volume :: real

record Trade =
  entry_date :: nat
  entry_price :: real
  exit_date :: nat
  exit_price :: real
  realized_return :: real

datatype event = Opened nat | Closed nat

record Sim =
  position :: position
  cash :: real
  shares :: real
  opened_on :: nat
  opened_at :: real
  committed :: real

definition step :: "real \<Rightarrow> Sim \<Rightarrow> Bar \<times> bool \<times> bool \<Rightarrow> Sim \<times> event option \<times> Trade option" where
  "step fee_rate s row =
     (case row of (bar, entry, exit) \<Rightarrow>
        (case position s of
           Long \<Rightarrow>
             if exit then
               (s\<lparr>position := Flat,
                  cash := shares s * close bar * (1 - fee_rate),
                  shares := 0\<rparr>,
                Some (Closed (date bar)),
                Some \<lparr>entry_date = opened_on s, entry_price = opened_at s,
                      exit_date = date bar, exit_price = close bar,
                      realized_return =
                        shares s * close bar * (1 - fee_rate) / committed s - 1\<rparr>)
             else (s, None, None)
         | Flat \<Rightarrow>
             if entry then
               (s\<lparr>position := Long,
                  cash := 0,
                  shares := cash s * (1 - fee_rate) / close bar,
                  opened_on := date bar,
                  opened_at := close bar,
                  committed := cash s\<rparr>,
                Some (Opened (date bar)),
                None)
             else (s, None, None)))"

text \<open>Equity at a bar: the cash if Flat, else the shares at that bar's close.\<close>

definition equity_of :: "Sim \<Rightarrow> Bar \<Rightarrow> real" where
  "equity_of s bar = (case position s of Flat \<Rightarrow> cash s | Long \<Rightarrow> shares s * close bar)"

record BarResult =
  position_after :: position
  equity_after :: real
  transition :: "event option"
  closed_trade :: "Trade option"

fun simulate :: "real \<Rightarrow> Sim \<Rightarrow> (Bar \<times> bool \<times> bool) list \<Rightarrow> BarResult list" where
  "simulate fee_rate s [] = []"
| "simulate fee_rate s (row # rows) =
     (case step fee_rate s row of
        (s', ev, tr) \<Rightarrow>
          \<lparr>position_after = position s', equity_after = equity_of s' (fst row),
           transition = ev, closed_trade = tr\<rparr> # simulate fee_rate s' rows)"

text \<open>
  A run starts Flat with the initial cash. The signal series are aligned one to one with
  the price series.
\<close>

definition backtest :: "real \<Rightarrow> real \<Rightarrow> Bar list \<Rightarrow> bool list \<Rightarrow> bool list \<Rightarrow> BarResult list" where
  "backtest initial_cash fee_rate prices entry exit =
     simulate fee_rate
       \<lparr>position = Flat, cash = initial_cash, shares = 0,
        opened_on = 0, opened_at = 0, committed = 0\<rparr>
       (zip prices (zip entry exit))"

definition equity_curve :: "BarResult list \<Rightarrow> real list" where
  "equity_curve rs = map equity_after rs"

definition events :: "BarResult list \<Rightarrow> event list" where
  "events rs = List.map_filter transition rs"

definition trade_log :: "BarResult list \<Rightarrow> Trade list" where
  "trade_log rs = List.map_filter closed_trade rs"

text \<open>
  What the claim about the position says of a run: at every bar, an open happens only
  from Flat and leads to Long, a close happens only from Long and leads to Flat, and a
  bar without a transition keeps the position.
\<close>

fun legal_from :: "position \<Rightarrow> BarResult list \<Rightarrow> bool" where
  "legal_from p [] = True"
| "legal_from p (r # rs) =
     ((case transition r of
         None \<Rightarrow> position_after r = p
       | Some (Opened d) \<Rightarrow> p = Flat \<and> position_after r = Long
       | Some (Closed d) \<Rightarrow> p = Long \<and> position_after r = Flat)
      \<and> legal_from (position_after r) rs)"

text \<open>A sequence of events that strictly alternates, from the given position.\<close>

fun alternates :: "position \<Rightarrow> event list \<Rightarrow> bool" where
  "alternates p [] = True"
| "alternates Flat (Opened d # es) = alternates Long es"
| "alternates Long (Closed d # es) = alternates Flat es"
| "alternates Flat (Closed d # es) = False"
| "alternates Long (Opened d # es) = False"

subsection \<open>Drawdown\<close>

text \<open>
  Modelled from the spec: the DrawdownSeries of section 3,
  \<^verbatim>\<open>(value - running_max)/running_max\<close> at each point, and \<^verbatim>\<open>max_drawdown\<close>, the minimum
  of the series (section 4.8); neither is among the sources. The minimum of an empty
  series is not defined.
\<close>

fun drawdown_from :: "real \<Rightarrow> real list \<Rightarrow> real list" where
  "drawdown_from m [] = []"
| "drawdown_from m (v # vs) = (v - max m v) / max m v # drawdown_from (max m v) vs"

definition drawdown_series :: "real list \<Rightarrow> real list" where
  "drawdown_series vs = (case vs of [] \<Rightarrow> [] | v # _ \<Rightarrow> drawdown_from v vs)"

definition max_drawdown_of :: "real list \<Rightarrow> real option" where
  "max_drawdown_of dd = (case dd of [] \<Rightarrow> None | d # ds \<Rightarrow> Some (fold min ds d))"

definition non_decreasing :: "real list \<Rightarrow> bool" where
  "non_decreasing vs = sorted vs"

subsection \<open>MetricsCalculator\<close>













section \<open>Example inputs\<close>

definition bare_clarification :: DataType where
  "bare_clarification =
     \<lparr>chart_data = None, metrics = None, conversation = None,
      needs_clarification = Some True,
      message = Some ''Which ticker would you like to test?'', error = None\<rparr>"

definition flagged_clarification :: DataType where
  "flagged_clarification =
     \<lparr>chart_data = None, metrics = None, conversation = Some (JBool True),
      needs_clarification = Some True,
      message = Some ''Which ticker would you like to test?'', error = None\<rparr>"


definition example_chart_data :: ChartDataObj where
  "example_chart_data =
     \<lparr>dates = Some [''2024-01-02'', ''2024-01-03''],
      equity = Some [100, 101],
      drawdown = Some [0, 0],
      indicators = Some [(''SMA_5'', [1, 2])],
      signals = Some [(''entry'', [0, 1])]\<rparr>"

definition example_result :: DataType where
  "example_result =
     \<lparr>chart_data = Some example_chart_data, metrics = None, conversation = None,
      needs_clarification = None, message = None, error = None\<rparr>"

definition showing_results :: Home where
  "showing_results =
     \<lparr>data = Some example_result, loading = True, processingBacktest = False, nlInput = [],
      chatHistory =
        [\<lparr>role = Assistant, content = Some ''Great! I've run your backtest. Here are the results:'',
          timestamp = 3\<rparr>,
         \<lparr>role = User, content = Some ''Now with a 20-day SMA'', timestamp = 4\<rparr>]\<rparr>"

definition example_turns :: "Turn list" where
  "example_turns =
     [\<lparr>typed = ''Backtest Apple'', sent_at = 1, outcome = Replied flagged_clarification,
       replied_at = 2\<rparr>,
      \<lparr>typed = ''Use the 50-day SMA'', sent_at = 3, outcome = Failed, replied_at = 4\<rparr>]"

definition example_prices :: "Bar list" where
  "example_prices =
     [\<lparr>date = 0, open_price = 10, high = 10, low = 10, close = 10, volume = 1\<rparr>,
      \<lparr>date = 1, open_price = 12, high = 12, low = 12, close = 12, volume = 1\<rparr>,
      \<lparr>date = 2, open_price = 9, high = 9, low = 9, close = 9, volume = 1\<rparr>]"



section \<open>The simulator keeps one position\<close>

lemma step_legal:
  "step fee s row = (s', ev, tr) \<Longrightarrow>
   (case ev of None \<Rightarrow> position s' = position s
    | Some (Opened d) \<Rightarrow> position s = Flat \<and> position s' = Long
    | Some (Closed d) \<Rightarrow> position s = Long \<and> position s' = Flat)"
  by (cases row; cases "position s") (auto simp: step_def split: if_splits)

lemma simulate_legal: "legal_from (position s) (simulate fee s rows)"
proof (induction rows arbitrary: s)
  case Nil
  show ?case by simp
next
  case (Cons row rows)
  obtain s' ev tr where st: "step fee s row = (s', ev, tr)"
    by (cases "step fee s row") auto
  from step_legal[OF st] Cons.IH[of s'] st show ?case
    by (simp split: option.splits event.splits)
qed

lemma simulate_alternates: "alternates (position s) (events (simulate fee s rows))"
proof (induction rows arbitrary: s)
  case Nil
  show ?case by (simp add: events_def List.map_filter_simps)
next
  case (Cons row rows)
  obtain s' ev tr where st: "step fee s row = (s', ev, tr)"
    by (cases "step fee s row") auto
  have ih: "alternates (position s') (events (simulate fee s' rows))"
    by (rule Cons.IH)
  show ?case
  proof (cases ev)
    case None
    with step_legal[OF st] ih st show ?thesis
      by (simp add: events_def List.map_filter_simps)
  next
    case (Some e)
    with step_legal[OF st] ih st show ?thesis
      by (cases e) (simp_all add: events_def List.map_filter_simps)
  qed
qed

text \<open>
  C1. For every price series and every pair of entry and exit signals, a run of the
  simulator opens a position only when it is Flat and closes one only when it is Long;
  the position after each bar is Flat or Long accordingly, and the open and close events
  of the run strictly alternate, starting with an open.
\<close>

theorem simulator_alternates:
  "legal_from Flat (backtest initial_cash fee_rate prices entry exit) \<and>
   alternates Flat (events (backtest initial_cash fee_rate prices entry exit))"
  using simulate_legal[of "\<lparr>position = Flat, cash = initial_cash, shares = 0,
        opened_on = 0, opened_at = 0, committed = 0\<rparr>" fee_rate]
    simulate_alternates[of "\<lparr>position = Flat, cash = initial_cash, shares = 0,
        opened_on = 0, opened_at = 0, committed = 0\<rparr>" fee_rate]
  by (simp add: backtest_def)

theorem simulator_alternates_witness:
  "legal_from Flat (backtest 1000 0 example_prices [True, True, False] [False, True, True]) \<and>
   alternates Flat (events (backtest 1000 0 example_prices [True, True, False] [False, True, True])) \<and>
   events (backtest 1000 0 example_prices [True, True, False] [False, True, True]) =
     [Opened 0, Closed 1]"
proof -
  have ev: "events (backtest 1000 0 example_prices [True, True, False] [False, True, True]) =
      [Opened 0, Closed 1]"
    by (simp add: backtest_def example_prices_def step_def events_def List.map_filter_simps)
  from simulator_alternates[of 1000 0 example_prices "[True, True, False]" "[False, True, True]"] ev
  show ?thesis by simp
qed

section \<open>Drawdown is never positive\<close>

lemma drawdown_from_nonpos: "0 < m \<Longrightarrow> d \<in> set (drawdown_from m vs) \<Longrightarrow> d \<le> 0"
proof (induction vs arbitrary: m)
  case Nil
  then show ?case by simp
next
  case (Cons v vs)
  have pos: "0 < max m v" using Cons.prems(1) by simp
  from Cons.prems(2) consider "d = (v - max m v) / max m v" | "d \<in> set (drawdown_from (max m v) vs)"
    by auto
  then show ?case
  proof cases
    case 1
    have "v - max m v \<le> 0" by simp
    with pos show ?thesis unfolding 1 by (simp add: divide_le_0_iff)
  next
    case 2
    with Cons.IH[OF pos] show ?thesis by simp
  qed
qed

lemma drawdown_from_zero_iff:
  "0 < m \<Longrightarrow> (\<forall>d \<in> set (drawdown_from m vs). d = 0) \<longleftrightarrow> sorted (m # vs)"
proof (induction vs arbitrary: m)
  case Nil
  then show ?case by simp
next
  case (Cons v vs)
  have pos: "0 < max m v" using Cons.prems by simp
  have head: "(v - max m v) / max m v = 0 \<longleftrightarrow> m \<le> v"
    using pos by auto
  show ?case
  proof (cases "m \<le> v")
    case True
    then have mx: "max m v = v" by simp
    have "(\<forall>d \<in> set (drawdown_from m (v # vs)). d = 0) \<longleftrightarrow> sorted (v # vs)"
      using Cons.IH[OF pos] head True by (simp add: mx)
    also have "\<dots> \<longleftrightarrow> sorted (m # v # vs)" using True by auto
    finally show ?thesis .
  next
    case False
    then show ?thesis using head by auto
  qed
qed

lemma fold_min_Min: "fold min ds (d::real) = Min (set (d # ds))"
  by (simp only: Min.set_eq_fold)

lemma fold_min_in: "fold min ds (d::real) \<in> set (d # ds)"
  unfolding fold_min_Min by (rule Min_in) simp_all

lemma fold_min_lower: "x \<in> set (d # ds) \<Longrightarrow> fold min ds (d::real) \<le> x"
  unfolding fold_min_Min by (rule Min_le) simp_all

lemma drawdown_series_props:
  assumes ne: "vs \<noteq> []" and pos: "0 < hd vs"
  shows "(\<forall>d \<in> set (drawdown_series vs). d \<le> 0) \<and>
         (\<exists>m. max_drawdown_of (drawdown_series vs) = Some m \<and> m \<le> 0 \<and>
              (m = 0 \<longleftrightarrow> non_decreasing vs))"
proof -
  from ne obtain v ws where vs: "vs = v # ws" by (cases vs) auto
  with pos have v: "0 < v" by simp
  let ?dd = "drawdown_from v (v # ws)"
  have dd: "drawdown_series vs = ?dd" by (simp add: drawdown_series_def vs)
  have nonpos: "\<forall>d \<in> set ?dd. d \<le> 0" using drawdown_from_nonpos[OF v] by blast
  obtain d ds where dds: "?dd = d # ds" by simp
  let ?m = "fold min ds d"
  have m: "max_drawdown_of ?dd = Some ?m" by (simp add: max_drawdown_of_def dds del: drawdown_from.simps)
  have m_in: "?m \<in> set ?dd" using fold_min_in[of ds d] dds by simp
  have m_low: "\<And>x. x \<in> set ?dd \<Longrightarrow> ?m \<le> x" using fold_min_lower[of _ d ds] dds by simp
  have m_le: "?m \<le> 0" using nonpos m_in by blast
  have "?m = 0 \<longleftrightarrow> (\<forall>x \<in> set ?dd. x = 0)"
  proof
    assume z: "?m = 0"
    show "\<forall>x \<in> set ?dd. x = 0"
    proof
      fix x assume x: "x \<in> set ?dd"
      from m_low[OF x] z have "0 \<le> x" by simp
      moreover from nonpos x have "x \<le> 0" by blast
      ultimately show "x = 0" by simp
    qed
  next
    assume "\<forall>x \<in> set ?dd. x = 0"
    with m_in show "?m = 0" by blast
  qed
  also have "\<dots> \<longleftrightarrow> sorted (v # v # ws)" by (rule drawdown_from_zero_iff[OF v])
  also have "\<dots> \<longleftrightarrow> non_decreasing vs" by (simp add: non_decreasing_def vs)
  finally have iff: "?m = 0 \<longleftrightarrow> non_decreasing vs" .
  show ?thesis unfolding dd using nonpos m m_le iff by blast
qed

lemma backtest_first_equity:
  assumes "prices \<noteq> []" "length entry = length prices" "length exit = length prices"
    "0 < initial_cash" "0 \<le> fee_rate" "fee_rate < 1" "\<forall>b \<in> set prices. 0 < close b"
  shows "equity_curve (backtest initial_cash fee_rate prices entry exit) \<noteq> [] \<and>
         0 < hd (equity_curve (backtest initial_cash fee_rate prices entry exit))"
proof -
  from assms(1) obtain b bs where p: "prices = b # bs" by (cases prices) auto
  from assms(2) p obtain e es where e: "entry = e # es" by (cases entry) auto
  from assms(3) p obtain x xs where x: "exit = x # xs" by (cases exit) auto
  have cb: "0 < close b" using assms(7) p by simp
  have "0 < initial_cash * (1 - fee_rate)" using assms(4,6) by simp
  then have "0 < initial_cash * (1 - fee_rate) / close b * close b" using cb by simp
  then show ?thesis using assms(4)
    by (simp add: p e x backtest_def equity_curve_def step_def equity_of_def)
qed

text \<open>
  C2. For every backtest run (a price series that is not empty, with positive closes, the
  signal series aligned with it, a positive initial cash and a fee rate in [0,1)), every
  element of the drawdown series of the run's equity curve is at most 0, so the maximum
  drawdown is at most 0; and the maximum drawdown is 0 exactly when the equity curve is
  non-decreasing.
\<close>

theorem drawdown_nonpositive:
  assumes "prices \<noteq> []" "length entry = length prices" "length exit = length prices"
    "0 < initial_cash" "0 \<le> fee_rate" "fee_rate < 1" "\<forall>b \<in> set prices. 0 < close b"
  shows "(\<forall>d \<in> set (drawdown_series (equity_curve (backtest initial_cash fee_rate prices entry exit))). d \<le> 0) \<and>
         (\<exists>m. max_drawdown_of (drawdown_series (equity_curve (backtest initial_cash fee_rate prices entry exit))) = Some m \<and> m \<le> 0 \<and>
              (m = 0 \<longleftrightarrow> non_decreasing (equity_curve (backtest initial_cash fee_rate prices entry exit))))"
proof -
  from backtest_first_equity[OF assms]
  show ?thesis using drawdown_series_props by blast
qed

theorem drawdown_nonpositive_witness:
  "list_all (\<lambda>d. d \<le> 0)
     (drawdown_series (equity_curve
        (backtest 1000 0 example_prices [True, False, False] [False, False, False]))) \<and>
   (\<exists>m. max_drawdown_of (drawdown_series (equity_curve
            (backtest 1000 0 example_prices [True, False, False] [False, False, False]))) = Some m \<and>
        m \<le> 0 \<and>
        (m = 0 \<longleftrightarrow> non_decreasing (equity_curve
            (backtest 1000 0 example_prices [True, False, False] [False, False, False]))))"
proof -
  have h1: "example_prices \<noteq> []" by (simp add: example_prices_def)
  have h2: "length [True, False, False] = length example_prices" by (simp add: example_prices_def)
  have h3: "length [False, False, False] = length example_prices" by (simp add: example_prices_def)
  have h7: "\<forall>b \<in> set example_prices. 0 < close b" by (simp add: example_prices_def)
  from drawdown_nonpositive[OF h1 h2 h3 _ _ _ h7, of 1000 0]
  show ?thesis by (simp add: list_all_iff)
qed

section \<open>Crossings exclude each other\<close>

lemma cross_at_exclusive: "\<not> (cross_above_at A B i \<and> cross_below_at A B i)"
  by (auto simp: cross_above_at_def cross_below_at_def split: nat.splits option.splits)

lemma cross_above_iff:
  "i < length A \<Longrightarrow> cross_above A B ! i \<longleftrightarrow>
     (\<exists>j a0 b0 a1 b1. i = Suc j \<and> value_at A j = Some a0 \<and> value_at B j = Some b0 \<and>
        value_at A i = Some a1 \<and> value_at B i = Some b1 \<and> a0 \<le> b0 \<and> a1 > b1)"
  by (auto simp: cross_above_def cross_above_at_def split: nat.splits option.splits)

text \<open>
  C3. For every pair of operand series A and B and every index i of the series,
  \<open>cross_above A B\<close> and \<open>cross_below A B\<close> are not both true at i, where
  \<open>cross_above A B\<close> holds at i when A was at most B at i - 1 and A is above B at i, and
  \<open>cross_below\<close> is the mirror image.
\<close>

theorem cross_never_both:
  "\<forall>i < length A. \<not> (cross_above A B ! i \<and> cross_below A B ! i)"
  using cross_at_exclusive by (simp add: cross_above_def cross_below_def)

theorem cross_never_both_witness:
  "1 < length [Some 1, Some (3::real)] \<and>
   cross_above [Some 1, Some 3] [Some 2, Some 2] ! 1 \<and>
   \<not> (cross_above [Some 1, Some 3] [Some 2, Some 2] ! 1 \<and>
      cross_below [Some 1, Some 3] [Some 2, Some 2] ! 1)"
proof -
  have h: "1 < length [Some 1, Some (3::real)]" by simp
  have a: "cross_above [Some 1, Some 3] [Some 2, Some 2] ! 1"
    by (simp add: cross_above_def cross_above_at_def value_at_def upt_rec)
  from cross_never_both[of "[Some 1, Some 3]" "[Some 2, Some 2]"] h
  have "\<not> (cross_above [Some 1, Some 3] [Some 2, Some 2] ! 1 \<and>
      cross_below [Some 1, Some 3] [Some 2, Some 2] ! 1)" by blast
  with h a show ?thesis by blast
qed

section \<open>Degenerate metrics\<close>












section \<open>Replies on the chat page\<close>

text \<open>
  C6, as the code has it. A reply is treated as a clarification when both its
  \<^verbatim>\<open>conversation\<close> field is truthy and \<^verbatim>\<open>needs_clarification\<close> is true: then the chat
  gets the reply's \<^verbatim>\<open>message\<close> verbatim as an assistant message, \<^verbatim>\<open>data\<close> is reset to
  null, no results are scheduled and none are shown.
\<close>

theorem clarification_needs_conversation:
  assumes "truthy_any (conversation json)" and "needs_clarification json = Some True"
  shows "chatHistory (fst (handleSubmit_receive s (Replied json) now)) =
           chatHistory s @ [\<lparr>role = Assistant, content = message json, timestamp = now\<rparr>] \<and>
         data (fst (handleSubmit_receive s (Replied json) now)) = None \<and>
         snd (handleSubmit_receive s (Replied json) now) = None \<and>
         \<not> results_shown (fst (handleSubmit_receive s (Replied json) now))"
  using assms by (simp add: handleSubmit_receive_def truthy_bool_def results_shown_def)

theorem clarification_needs_conversation_witness:
  "truthy_any (conversation flagged_clarification) \<and>
   needs_clarification flagged_clarification = Some True \<and>
   chatHistory (fst (handleSubmit_receive showing_results (Replied flagged_clarification) 5)) =
     chatHistory showing_results @
     [\<lparr>role = Assistant, content = Some ''Which ticker would you like to test?'', timestamp = 5\<rparr>] \<and>
   data showing_results \<noteq> None \<and>
   data (fst (handleSubmit_receive showing_results (Replied flagged_clarification) 5)) = None \<and>
   \<not> results_shown (fst (handleSubmit_receive showing_results (Replied flagged_clarification) 5))"
proof -
  have h1: "truthy_any (conversation flagged_clarification)"
    by (simp add: flagged_clarification_def truthy_any_def)
  have h2: "needs_clarification flagged_clarification = Some True"
    by (simp add: flagged_clarification_def)
  have m: "message flagged_clarification = Some ''Which ticker would you like to test?''"
    by (simp add: flagged_clarification_def)
  have d: "data showing_results \<noteq> None"
    by (simp add: showing_results_def)
  from clarification_needs_conversation[OF h1 h2, of showing_results 5] h1 h2 m d
  show ?thesis by simp
qed

text \<open>
  A reply with \<^verbatim>\<open>needs_clarification: true\<close> and a \<^verbatim>\<open>message\<close> but no \<^verbatim>\<open>conversation\<close>
  field takes the success branch: the chat gets the confirmation text instead of the
  message, the results on display stay, and the timer then stores the reply as the result.
\<close>

theorem bare_clarification_counterexample:
  "needs_clarification bare_clarification = Some True \<and>
   message bare_clarification = Some ''Which ticker would you like to test?'' \<and>
   chatHistory (fst (handleSubmit_receive showing_results (Replied bare_clarification) 5)) =
     chatHistory showing_results @
     [\<lparr>role = Assistant, content = Some ''Great! I've run your backtest. Here are the results:'',
       timestamp = 5\<rparr>] \<and>
   snd (handleSubmit_receive showing_results (Replied bare_clarification) 5) =
     Some bare_clarification \<and>
   data (fst (handleSubmit_receive showing_results (Replied bare_clarification) 5)) =
     Some example_result \<and>
   results_shown (timeout_fires
     (fst (handleSubmit_receive showing_results (Replied bare_clarification) 5))
     bare_clarification)"
  by (simp add: bare_clarification_def showing_results_def handleSubmit_receive_def
      truthy_any_def truthy_bool_def truthy_str_def timeout_fires_def results_shown_def)



section \<open>What a request carries\<close>

lemma chatHistory_receive:
  "chatHistory (fst (handleSubmit_receive s out now)) =
     chatHistory s @ [\<lparr>role = Assistant, content = assistant_turn out, timestamp = now\<rparr>]"
  by (cases out) (simp_all add: handleSubmit_receive_def assistant_turn_def)

lemma chatHistory_timeout: "chatHistory (timeout_fires s json) = chatHistory s"
  by (simp add: timeout_fires_def)

lemma send_blank: "trim v = [] \<Longrightarrow> handleSubmit_send (handleInputChange s v) now = None"
  by (simp add: handleSubmit_send_def handleInputChange_def)

lemma send_text:
  "trim v \<noteq> [] \<Longrightarrow> handleSubmit_send (handleInputChange s v) now = Some (s1, req) \<Longrightarrow>
     req = \<lparr>input = v,
            conversation_history =
              Some (map (\<lambda>msg. \<lparr>role = role msg, content = content msg\<rparr>) (chatHistory s))\<rparr> \<and>
     chatHistory s1 = chatHistory s @ [\<lparr>role = User, content = Some v, timestamp = now\<rparr>]"
  by (auto simp: handleSubmit_send_def handleInputChange_def)

lemma send_text_some:
  "trim v \<noteq> [] \<Longrightarrow> \<exists>s1 req. handleSubmit_send (handleInputChange s v) now = Some (s1, req)"
  by (simp add: handleSubmit_send_def handleInputChange_def)

lemma chatHistory_input: "chatHistory (handleInputChange s v) = chatHistory s"
  by (simp add: handleInputChange_def)

text \<open>
  C7, as the code has it. On the chat page, the requests of a conversation are those of
  a client that sends the full history with every request: each request carries the new
  input and, as \<^verbatim>\<open>conversation_history\<close>, the role and content of every message of the
  chat so far (the greeting and every earlier user and assistant turn, in order).
\<close>

theorem chat_requests_carry_history:
  "session_requests s ts =
     full_history_requests
       (map (\<lambda>msg. \<lparr>role = role msg, content = content msg\<rparr>) (chatHistory s)) ts"
proof (induction ts arbitrary: s)
  case Nil
  show ?case by simp
next
  case (Cons t ts)
  show ?case
  proof (cases "trim (typed t) = []")
    case True
    then show ?thesis
      using Cons.IH[of "handleInputChange s (typed t)"]
      by (simp add: send_blank chatHistory_input)
  next
    case False
    from send_text_some[OF False] obtain s1 req
      where sent: "handleSubmit_send (handleInputChange s (typed t)) (sent_at t) = Some (s1, req)"
      by blast
    note st = send_text[OF False sent]
    obtain s2 tm where rc: "handleSubmit_receive s1 (outcome t) (replied_at t) = (s2, tm)"
      by (cases "handleSubmit_receive s1 (outcome t) (replied_at t)") auto
    have h2: "chatHistory s2 = chatHistory s @
        [\<lparr>role = User, content = Some (typed t), timestamp = sent_at t\<rparr>,
         \<lparr>role = Assistant, content = assistant_turn (outcome t), timestamp = replied_at t\<rparr>]"
      using chatHistory_receive[of s1 "outcome t" "replied_at t"] rc st by simp
    show ?thesis
    proof (cases tm)
      case None
      then show ?thesis using Cons.IH[of s2] False sent rc st h2 by simp
    next
      case (Some json)
      then show ?thesis
        using Cons.IH[of "timeout_fires s2 json"] False sent rc st h2
        by (simp add: chatHistory_timeout)
    qed
  qed
qed

theorem chat_requests_carry_history_witness:
  "session_requests (initial 0) example_turns =
     [\<lparr>input = ''Backtest Apple'',
       conversation_history = Some
         [\<lparr>role = Assistant,
           content = Some ''Hi! I'll help you create and backtest a trading strategy. What would you like to backtest?''\<rparr>]\<rparr>,
      \<lparr>input = ''Use the 50-day SMA'',
       conversation_history = Some
         [\<lparr>role = Assistant,
           content = Some ''Hi! I'll help you create and backtest a trading strategy. What would you like to backtest?''\<rparr>,
          \<lparr>role = User, content = Some ''Backtest Apple''\<rparr>,
          \<lparr>role = Assistant, content = Some ''Which ticker would you like to test?''\<rparr>]\<rparr>]"
proof -
  have t: "trim ''Backtest Apple'' \<noteq> []" "trim ''Use the 50-day SMA'' \<noteq> []"
    by (simp_all add: trim_def js_space_def)
  show ?thesis
    unfolding chat_requests_carry_history[of "initial 0" example_turns]
    using t
    by (simp add: example_turns_def initial_def assistant_turn_def flagged_clarification_def
        truthy_any_def truthy_bool_def)
qed

text \<open>
  On the single-form page the body is \<^verbatim>\<open>{ input: nlInput }\<close>: the second request of a
  conversation carries neither the first input nor the reply to it.
\<close>

theorem form_requests_counterexample:
  "form_requests \<lparr>form_data = None, form_loading = False, form_nlInput = []\<rparr> example_turns =
     [\<lparr>input = ''Backtest Apple'', conversation_history = None\<rparr>,
      \<lparr>input = ''Use the 50-day SMA'', conversation_history = None\<rparr>]"
  by (simp add: example_turns_def form_handleSubmit_def form_handleInputChange_def)

section \<open>Charts share the dates\<close>







section \<open>An absent metric\<close>

text \<open>
  C9. For every format string, \<^verbatim>\<open>formatValue(undefined, format)\<close> is the string
  \<^verbatim>\<open>0.00\<close>, on both pages; so an absent currency metric has no dollar prefix and an
  absent percent metric no percent suffix.
\<close>

theorem formatValue_undefined:
  "formatValue toFixed2 toString None format = ''0.00'' \<and>
   form_formatValue toFixed2 toString None format = ''0.00'' \<and>
   hd (formatValue toFixed2 toString None ''currency'') \<noteq> CHR ''$'' \<and>
   last (formatValue toFixed2 toString None ''percent'') \<noteq> CHR ''%'' \<and>
   hd (form_formatValue toFixed2 toString None ''currency'') \<noteq> CHR ''$'' \<and>
   last (form_formatValue toFixed2 toString None ''percent'') \<noteq> CHR ''%''"
  by (simp add: formatValue_def form_formatValue_def)

end
